theory Spec2Isabelle
  imports Complex_Main "HOL-Library.List_Lexorder"
begin

section \<open>Python values\<close>

text \<open>
  A Python \<open>str\<close> is a sequence of Unicode code points, and \<open>len\<close>, \<open>ljust\<close> and
  the comparison of strings count and compare code points. A string is therefore a list
  of code points; \<open>str\<close> turns an ASCII literal into one. The three non-ASCII literals of
  \<open>benchmark_summary.py\<close> are U+00B5 (micro sign, 181), U+221E (infinity, 8734) and
  U+26A1 (high voltage sign, 9889).
\<close>

type_synonym pystr = "nat list"

abbreviation str :: "string \<Rightarrow> pystr" where
  "str s \<equiv> map of_char s"

text \<open>The exceptions that the script can raise or catch.\<close>

datatype error = JSONDecodeError | KeyError | TypeError | ValueError | ZeroDivisionError

text \<open>
  A dict keeps its keys in insertion order, and the script iterates over dicts, so a dict
  is an association list whose keys are distinct. \<open>dict_get d k dflt\<close> is
  \<open>d.get(k, dflt)\<close>, \<open>dict_set d k v\<close> is \<open>d[k] = v\<close>: an existing key keeps its
  place, a new key goes to the end.
\<close>

type_synonym 'v pydict = "(pystr \<times> 'v) list"

definition dict_get :: "'v pydict \<Rightarrow> pystr \<Rightarrow> 'v \<Rightarrow> 'v" where
  "dict_get d k dflt = (case map_of d k of None \<Rightarrow> dflt | Some v \<Rightarrow> v)"

fun dict_set :: "'v pydict \<Rightarrow> pystr \<Rightarrow> 'v \<Rightarrow> 'v pydict" where
  "dict_set [] k v = [(k, v)]"
| "dict_set ((k', v') # d) k v = (if k' = k then (k, v) # d else (k', v') # dict_set d k v)"

section \<open>String methods\<close>

fun join :: "pystr \<Rightarrow> pystr list \<Rightarrow> pystr" where
  "join sep [] = []"
| "join sep [x] = x"
| "join sep (x # y # ys) = x @ sep @ join sep (y # ys)"

definition ljust :: "nat \<Rightarrow> pystr \<Rightarrow> pystr" where
  "ljust w s = s @ replicate (w - length s) 32"

definition rjust :: "nat \<Rightarrow> pystr \<Rightarrow> pystr" where
  "rjust w s = replicate (w - length s) 32 @ s"

definition startswith :: "pystr \<Rightarrow> pystr \<Rightarrow> bool" where
  "startswith s p = (take (length p) s = p)"

definition endswith :: "pystr \<Rightarrow> pystr \<Rightarrow> bool" where
  "endswith s p = (length p \<le> length s \<and> drop (length s - length p) s = p)"

text \<open>
  \<open>str.split(sep)\<close> for a separator of one character; the result is never empty.
\<close>

fun split_on :: "nat \<Rightarrow> pystr \<Rightarrow> pystr list" where
  "split_on c [] = [[]]"
| "split_on c (x # xs) =
     (if x = c then [] # split_on c xs
      else case split_on c xs of [] \<Rightarrow> [[x]] | g # gs \<Rightarrow> (x # g) # gs)"

text \<open>
  The characters for which \<open>str.isspace\<close> holds, which are the ones that
  \<open>str.rstrip()\<close> removes: the ASCII controls 9 to 13 and 28 to 31, the space, and the
  Unicode spaces and separators.
\<close>

definition is_space :: "nat \<Rightarrow> bool" where
  "is_space c =
     ((9 \<le> c \<and> c \<le> 13) \<or> (28 \<le> c \<and> c \<le> 32) \<or> c = 133 \<or> c = 160 \<or> c = 5760 \<or>
      (8192 \<le> c \<and> c \<le> 8202) \<or> c = 8232 \<or> c = 8233 \<or> c = 8239 \<or> c = 8287 \<or> c = 12288)"

definition rstrip :: "pystr \<Rightarrow> pystr" where
  "rstrip s = rev (dropWhile is_space (rev s))"

section \<open>The interpreter's tables\<close>

text \<open>
  Some built-ins that the script calls depend on data of the interpreter that is no part
  of the script: the Unicode character database behind \<open>str.title\<close>, \<open>str.isdigit\<close>
  and \<open>int\<close>, the order in which a \<open>set\<close> of strings is iterated (string hashes are
  randomised per process), and the limit on the number of digits that \<open>int\<close> converts.
  They are the fields of a record that the functions below take as a parameter. The
  ASCII range is fixed in the functions themselves; the fields are consulted for code
  points from 128 on only (127 on, for \<open>int\<close>).
  \<^item> \<open>is_cased c\<close>: the code point has the property Cased;
  \<^item> \<open>to_title c\<close>: its full title-case mapping;
  \<^item> \<open>to_lower left c right\<close>: its full lower-case mapping at a place of a string, which
    for the capital sigma depends on the characters around it;
  \<^item> \<open>is_digit c\<close>: \<open>str.isdigit\<close> holds for the character;
  \<^item> \<open>to_decimal c\<close>: its value as a decimal digit, if it is one;
  \<^item> \<open>set_rank\<close>: a set yields its elements, each once, in an order that their
    hashes decide; the order is that of an arbitrary rank of the strings;
  \<^item> \<open>max_str_digits\<close>: \<open>sys.get_int_max_str_digits()\<close>, 0 for no limit.
\<close>

record runtime =
  is_cased :: "nat \<Rightarrow> bool"
  to_title :: "nat \<Rightarrow> pystr"
  to_lower :: "pystr \<Rightarrow> nat \<Rightarrow> pystr \<Rightarrow> pystr"
  is_digit :: "nat \<Rightarrow> bool"
  to_decimal :: "nat \<Rightarrow> nat option"
  set_rank :: "pystr \<Rightarrow> nat"
  max_str_digits :: nat

text \<open>
  A runtime to evaluate examples with. Beyond ASCII it holds the entries of CPython 3.11
  for the code points of the examples only, and treats every other code point as an
  uncased character that is no digit: U+0130 (capital I with dot above) is cased, is its
  own title case, and its lower case is the two code points U+0069 U+0307; U+0307
  (combining dot above) is not cased; \<open>isdigit\<close> holds for the superscripts U+00B2,
  U+00B3 and U+00B9, which are no decimal digits. The default digit limit is 4300.
\<close>

definition sample_runtime :: runtime where
  "sample_runtime =
     \<lparr> is_cased = (\<lambda>c. c = 304),
       to_title = (\<lambda>c. [c]),
       to_lower = (\<lambda>left c right. if c = 304 then [105, 775] else [c]),
       is_digit = (\<lambda>c. c = 178 \<or> c = 179 \<or> c = 185),
       to_decimal = (\<lambda>c. None),
       set_rank = (\<lambda>s. 0),
       max_str_digits = 4300 \<rparr>"

section \<open>Numbers and their formatting\<close>

text \<open>
  \<open>format_fixed p x\<close> is \<open>format(x, '.pf')\<close> for the exact value \<open>x\<close> of a
  finite float: the decimal expansion with \<open>p\<close> digits after the point, rounded to
  the nearest, ties to even.
\<close>

fun digits :: "nat \<Rightarrow> pystr" where
  "digits n = (if n < 10 then [48 + n] else digits (n div 10) @ [48 + n mod 10])"

declare digits.simps [simp del]

definition round_half_even :: "rat \<Rightarrow> int" where
  "round_half_even x =
     (let f = \<lfloor>x\<rfloor>; d = x - of_int f
      in if d < 1 / 2 then f else if 1 / 2 < d then f + 1 else if even f then f else f + 1)"

definition format_fixed :: "nat \<Rightarrow> rat \<Rightarrow> pystr" where
  "format_fixed p x =
     (let n = nat (round_half_even (\<bar>x\<bar> * 10 ^ p));
          ds = digits (n mod 10 ^ p)
      in (if x < 0 then str ''-'' else []) @ digits (n div 10 ^ p) @
         (if p = 0 then [] else str ''.'' @ replicate (p - length ds) 48 @ ds))"

subsection \<open>Floats\<close>

text \<open>
  The times are Python floats, as the annotations of \<open>format_time\<close> and
  \<open>calculate_speedup\<close> say: IEEE 754 binary64 values. A finite float other than the
  negative zero is given by its exact value, a rational number; the negative zero, the
  infinities and not-a-number are values of their own.

  \<open>round64 x\<close> is the float nearest to the exact result \<open>x\<close> of an operation, ties to
  even: the result is a multiple of \<open>2 ^ (e - 52)\<close>, where \<open>e\<close> is the binary
  exponent of \<open>x\<close> and at least \<open>-1022\<close> (below, the floats are subnormal and
  evenly spaced); a result that rounds to \<open>2 ^ 1024\<close> or more, one whose
  exponent is 1024 or more, overflows to an infinity, and one that rounds to nothing keeps its sign on a zero.
\<close>

datatype float64 = Finite rat | NegZero | PosInf | NegInf | NaN

fun bit_length :: "nat \<Rightarrow> nat" where
  "bit_length n = (if n = 0 then 0 else Suc (bit_length (n div 2)))"

declare bit_length.simps [simp del]

definition pow2 :: "int \<Rightarrow> rat" where
  "pow2 k = (if 0 \<le> k then of_int (2 ^ nat k) else 1 / of_int (2 ^ nat (- k)))"

text \<open>The binary exponent of a positive number: \<open>2 ^ ilog2 a \<le> a < 2 ^ (ilog2 a + 1)\<close>.\<close>

definition ilog2 :: "rat \<Rightarrow> int" where
  "ilog2 a = (if 1 \<le> a then int (bit_length (nat \<lfloor>a\<rfloor>)) - 1
              else - int (bit_length (nat \<lceil>1 / a\<rceil> - 1)))"

definition round64 :: "rat \<Rightarrow> float64" where
  "round64 x =
     (if x = 0 then Finite 0
      else let a = \<bar>x\<bar>;
               q = pow2 (max (ilog2 a) (- 1022) - 52);
               r = of_int (round_half_even (a / q)) * q
           in if 1024 \<le> ilog2 r then (if 0 < x then PosInf else NegInf)
              else if r = 0 then (if 0 < x then Finite 0 else NegZero)
              else Finite (if 0 < x then r else - r))"

fun exact :: "float64 \<Rightarrow> rat" where
  "exact (Finite r) = r"
| "exact _ = 0"

fun is_zero :: "float64 \<Rightarrow> bool" where
  "is_zero (Finite r) = (r = 0)"
| "is_zero NegZero = True"
| "is_zero _ = False"

fun is_inf :: "float64 \<Rightarrow> bool" where
  "is_inf PosInf = True"
| "is_inf NegInf = True"
| "is_inf _ = False"

fun negative :: "float64 \<Rightarrow> bool" where
  "negative (Finite r) = (r < 0)"
| "negative NegZero = True"
| "negative NegInf = True"
| "negative _ = False"

definition signed_zero :: "bool \<Rightarrow> float64" where
  "signed_zero neg = (if neg then NegZero else Finite 0)"

definition signed_inf :: "bool \<Rightarrow> float64" where
  "signed_inf neg = (if neg then NegInf else PosInf)"

text \<open>
  The quotient and the sum of two floats as IEEE 754 has them. Python raises
  \<open>ZeroDivisionError\<close> for a divisor that is a zero, before it divides; \<open>truediv\<close>
  is Python's \<open>a / b\<close>.
\<close>

definition ieee_div :: "float64 \<Rightarrow> float64 \<Rightarrow> float64" where
  "ieee_div a b =
     (if a = NaN \<or> b = NaN then NaN
      else if is_inf a then (if is_inf b then NaN else signed_inf (negative a \<noteq> negative b))
      else if is_inf b then signed_zero (negative a \<noteq> negative b)
      else if is_zero b then (if is_zero a then NaN else signed_inf (negative a \<noteq> negative b))
      else if is_zero a then signed_zero (negative a \<noteq> negative b)
      else round64 (exact a / exact b))"

definition truediv :: "float64 \<Rightarrow> float64 \<Rightarrow> error + float64" where
  "truediv a b = (if is_zero b then Inl ZeroDivisionError else Inr (ieee_div a b))"

definition ieee_add :: "float64 \<Rightarrow> float64 \<Rightarrow> float64" where
  "ieee_add a b =
     (if a = NaN \<or> b = NaN then NaN
      else if is_inf a then (if is_inf b \<and> negative a \<noteq> negative b then NaN else a)
      else if is_inf b then b
      else if exact a + exact b = 0 then signed_zero (a = NegZero \<and> b = NegZero)
      else round64 (exact a + exact b))"

text \<open>
  The comparisons of a float with a constant of the script, \<open>x < c\<close> and \<open>x > c\<close>;
  both are false for not-a-number. \<open>is_zero x\<close> is \<open>x == 0\<close>.
\<close>

fun lt :: "float64 \<Rightarrow> rat \<Rightarrow> bool" where
  "lt (Finite r) c = (r < c)"
| "lt NegZero c = (0 < c)"
| "lt NegInf c = True"
| "lt _ c = False"

fun gt :: "float64 \<Rightarrow> rat \<Rightarrow> bool" where
  "gt (Finite r) c = (c < r)"
| "gt NegZero c = (c < 0)"
| "gt PosInf c = True"
| "gt _ c = False"

text \<open>
  \<open>sum(xs)\<close> for a list of floats starts from the int 0, which the first addition
  turns into the float zero, and adds from left to right (CPython up to 3.11; later
  versions compensate the rounding errors of the partial sums). \<open>average xs\<close> is
  \<open>sum(xs) / len(xs)\<close> for a list that is not empty.
\<close>

definition fsum :: "float64 list \<Rightarrow> float64" where
  "fsum xs = foldl ieee_add (Finite 0) xs"

definition average :: "float64 list \<Rightarrow> float64" where
  "average xs = ieee_div (fsum xs) (round64 (of_nat (length xs)))"

text \<open>\<open>format(x, '.pf')\<close> for a float.\<close>

fun fmt :: "nat \<Rightarrow> float64 \<Rightarrow> pystr" where
  "fmt p (Finite r) = format_fixed p r"
| "fmt p NegZero = str ''-'' @ format_fixed p 0"
| "fmt p PosInf = str ''inf''"
| "fmt p NegInf = str ''-inf''"
| "fmt p NaN = str ''nan''"

subsection \<open>Integers from strings\<close>

text \<open>
  \<open>int(s)\<close> for a string: white space around the literal is skipped, where the ASCII
  white space is 9 to 13 and the space; a sign may follow; then come decimal digits, of
  any script, in groups separated by single underscores. Anything else is a
  \<open>ValueError\<close>, and so is a literal with more digits than the limit.
\<close>

definition int_space :: "nat \<Rightarrow> bool" where
  "int_space c = (if c < 127 then (9 \<le> c \<and> c \<le> 13) \<or> c = 32 else is_space c)"

definition int_digit :: "runtime \<Rightarrow> nat \<Rightarrow> nat option" where
  "int_digit R c =
     (if c < 127 then (if 48 \<le> c \<and> c \<le> 57 then Some (c - 48) else None)
      else to_decimal R c)"

definition py_int :: "runtime \<Rightarrow> pystr \<Rightarrow> error + int" where
  "py_int R s =
     (let t = dropWhile int_space s;
          negative = (take 1 t = str ''-'');
          u = (if take 1 t = str ''-'' \<or> take 1 t = str ''+'' then drop 1 t else t);
          groups = split_on 95 (rev (dropWhile int_space (rev u)))
      in if list_ex (\<lambda>g. g = []) groups then Inl ValueError
         else case those (map (int_digit R) (concat groups)) of
           None \<Rightarrow> Inl ValueError
         | Some ds \<Rightarrow>
             if 0 < max_str_digits R \<and> max_str_digits R < length ds then Inl ValueError
             else Inr ((if negative then - 1 else 1) * int (foldl (\<lambda>a d. 10 * a + d) 0 ds)))"

text \<open>\<open>format(n, '03d')\<close>: at least three characters, the sign included, padded with zeros.\<close>

definition format_03d :: "int \<Rightarrow> pystr" where
  "format_03d n =
     (let ds = digits (nat \<bar>n\<bar>)
      in if n < 0 then str ''-'' @ replicate (2 - length ds) 48 @ ds
         else replicate (3 - length ds) 48 @ ds)"

section \<open>Time Formatter\<close>

text \<open>The divisors are constants other than zero, so the divisions raise nothing.\<close>

definition format_time :: "float64 \<Rightarrow> pystr" where
  "format_time ns =
     (if lt ns 1000 then fmt 0 ns @ str '' ns''
      else if lt ns 1000000 then fmt 2 (ieee_div ns (Finite 1000)) @ [32, 181, 115]
      else if lt ns 1000000000 then fmt 2 (ieee_div ns (Finite 1000000)) @ str '' ms''
      else fmt 2 (ieee_div ns (Finite 1000000000)) @ str '' s'')"

section \<open>Speedup annotation\<close>

text \<open>
  \<open>calculate_speedup\<close> divides twice: \<open>git_time / helix_time\<close>, guarded by the test
  \<open>helix_time == 0\<close>, and \<open>1 / speedup\<close> in the \<open>slower\<close> branch, where Python raises
  \<open>ZeroDivisionError\<close> when \<open>speedup\<close> is zero.
\<close>

definition calculate_speedup :: "float64 \<Rightarrow> float64 \<Rightarrow> error + pystr" where
  "calculate_speedup git_time helix_time =
     (if is_zero helix_time then Inr [8734]
      else let speedup = ieee_div git_time helix_time
           in if gt speedup 1 then Inr (fmt 1 speedup @ str ''x faster'')
              else if lt speedup 1 then
                (case truediv (Finite 1) speedup of
                   Inl e \<Rightarrow> Inl e
                 | Inr slowdown \<Rightarrow> Inr (fmt 1 slowdown @ str ''x slower''))
              else Inr (str ''same''))"

section \<open>Result Collector\<close>

text \<open>
  \<open>json.load\<close> returns a Python value: \<open>None\<close>, a bool, an int, a float, a str, a
  list or a dict with string keys.
\<close>

datatype json =
    JNull
  | JBool bool
  | JInt int
  | JFloat rat
  | JStr pystr
  | JArr "json list"
  | JObj "(pystr \<times> json) list"

text \<open>
  The measurement tree as \<open>parse_criterion_results\<close> sees it. An entry of the root is
  a directory or not; an entry of a benchmark directory is a directory or not; below a
  parameter directory the file \<open>new/estimates.json\<close> does not exist, holds text that
  \<open>json.load\<close> rejects with \<open>JSONDecodeError\<close>, or holds a JSON document. The lists
  are in the order in which \<open>iterdir\<close> yields the entries.
\<close>

datatype estimates = NoFile | NotJson | Document json

datatype param_entry = ParamFile | ParamDir estimates

datatype bench_entry = BenchFile | BenchDir "(pystr \<times> param_entry) list"

type_synonym tree = "(pystr \<times> bench_entry) list"

type_synonym 'v results = "'v pydict pydict"

text \<open>
  \<open>subscript x k\<close> is \<open>x[k]\<close> for a string \<open>k\<close>: a dict without the key raises
  \<open>KeyError\<close>; a list and a str accept integer indices only, and \<open>None\<close>, bools and
  numbers are not subscriptable, all of which is a \<open>TypeError\<close>.
\<close>

fun subscript :: "json \<Rightarrow> pystr \<Rightarrow> error + json" where
  "subscript (JObj d) k = (case map_of d k of None \<Rightarrow> Inl KeyError | Some v \<Rightarrow> Inr v)"
| "subscript _ k = Inl TypeError"

definition json_load :: "estimates \<Rightarrow> error + json" where
  "json_load f = (case f of Document data \<Rightarrow> Inr data | _ \<Rightarrow> Inl JSONDecodeError)"

text \<open>The body of the \<open>try\<close> block up to the assignment of \<open>mean_ns\<close>.\<close>

definition read_mean :: "json \<Rightarrow> error + json" where
  "read_mean data =
     (case subscript data (str ''mean'') of
        Inl e \<Rightarrow> Inl e
      | Inr m \<Rightarrow> subscript m (str ''point_estimate''))"

definition try_estimates :: "estimates \<Rightarrow> error + json" where
  "try_estimates f = (case json_load f of Inl e \<Rightarrow> Inl e | Inr data \<Rightarrow> read_mean data)"

text \<open>\<open>except (json.JSONDecodeError, KeyError)\<close>\<close>

definition caught :: "error \<Rightarrow> bool" where
  "caught e = (e = JSONDecodeError \<or> e = KeyError)"

definition record_mean :: "json results \<Rightarrow> pystr \<Rightarrow> pystr \<Rightarrow> json \<Rightarrow> json results" where
  "record_mean results bench_name param mean_ns =
     (let results' = (if map_of results bench_name = None
                      then dict_set results bench_name [] else results)
      in dict_set results' bench_name (dict_set (dict_get results' bench_name []) param mean_ns))"

fun scan_params :: "pystr \<Rightarrow> (pystr \<times> param_entry) list \<Rightarrow> json results \<Rightarrow> error + json results" where
  "scan_params bench_name [] results = Inr results"
| "scan_params bench_name ((param, ParamFile) # rest) results =
     scan_params bench_name rest results"
| "scan_params bench_name ((param, ParamDir f) # rest) results =
     (if f = NoFile then scan_params bench_name rest results
      else case try_estimates f of
        Inr mean_ns \<Rightarrow> scan_params bench_name rest (record_mean results bench_name param mean_ns)
      | Inl e \<Rightarrow> if caught e then scan_params bench_name rest results else Inl e)"

fun scan_benches :: "tree \<Rightarrow> json results \<Rightarrow> error + json results" where
  "scan_benches [] results = Inr results"
| "scan_benches ((bench_name, BenchFile) # rest) results = scan_benches rest results"
| "scan_benches ((bench_name, BenchDir entries) # rest) results =
     (case scan_params bench_name entries results of
        Inl e \<Rightarrow> Inl e
      | Inr results' \<Rightarrow> scan_benches rest results')"

definition parse_criterion_results :: "tree \<Rightarrow> error + json results" where
  "parse_criterion_results criterion_dir = scan_benches criterion_dir []"

text \<open>
  The guarantee as the specification words it: a recorded mean is a number and is not
  negative.
\<close>

fun valid_mean :: "json \<Rightarrow> bool" where
  "valid_mean (JInt i) = (0 \<le> i)"
| "valid_mean (JFloat r) = (0 \<le> r)"
| "valid_mean _ = False"

definition all_means_valid :: "json results \<Rightarrow> bool" where
  "all_means_valid results = list_all (\<lambda>(b, ps). list_all (\<lambda>(p, v). valid_mean v) ps) results"

section \<open>Name Formatter\<close>

text \<open>
  \<open>str.replace(old, new)\<close> replaces the occurrences of \<open>old\<close> from left to right,
  without overlap; with the count 1 it replaces the first occurrence only. For an empty
  \<open>old\<close> Python inserts \<open>new\<close> before every character and at the end.
\<close>

function replace_all :: "pystr \<Rightarrow> pystr \<Rightarrow> pystr \<Rightarrow> pystr" where
  "replace_all old new [] = (if old = [] then new else [])"
| "replace_all old new (c # cs) =
     (if old = [] then new @ c # replace_all old new cs
      else if startswith (c # cs) old then new @ replace_all old new (drop (length old) (c # cs))
      else c # replace_all old new cs)"
  by pat_completeness auto
termination
  by (relation "measure (\<lambda>(old, new, s). length s)") auto

fun replace_first :: "pystr \<Rightarrow> pystr \<Rightarrow> pystr \<Rightarrow> pystr" where
  "replace_first old new [] = (if old = [] then new else [])"
| "replace_first old new (c # cs) =
     (if startswith (c # cs) old then new @ drop (length old) (c # cs)
      else c # replace_first old new cs)"

text \<open>
  \<open>str.title()\<close> maps each character to lower case if the character before it is
  cased, and to title case otherwise. On ASCII the cased characters are the letters.
\<close>

definition ascii_alpha :: "nat \<Rightarrow> bool" where
  "ascii_alpha c = ((65 \<le> c \<and> c \<le> 90) \<or> (97 \<le> c \<and> c \<le> 122))"

definition ascii_upper :: "nat \<Rightarrow> nat" where
  "ascii_upper c = (if 97 \<le> c \<and> c \<le> 122 then c - 32 else c)"

definition ascii_lower :: "nat \<Rightarrow> nat" where
  "ascii_lower c = (if 65 \<le> c \<and> c \<le> 90 then c + 32 else c)"

definition py_is_cased :: "runtime \<Rightarrow> nat \<Rightarrow> bool" where
  "py_is_cased R c = (if c < 128 then ascii_alpha c else is_cased R c)"

definition py_to_title :: "runtime \<Rightarrow> nat \<Rightarrow> pystr" where
  "py_to_title R c = (if c < 128 then [ascii_upper c] else to_title R c)"

definition py_to_lower :: "runtime \<Rightarrow> pystr \<Rightarrow> nat \<Rightarrow> pystr \<Rightarrow> pystr" where
  "py_to_lower R left c right = (if c < 128 then [ascii_lower c] else to_lower R left c right)"

fun do_title :: "runtime \<Rightarrow> pystr \<Rightarrow> pystr \<Rightarrow> bool \<Rightarrow> pystr" where
  "do_title R left [] previous_is_cased = []"
| "do_title R left (c # right) previous_is_cased =
     (if previous_is_cased then py_to_lower R left c right else py_to_title R c)
     @ do_title R (left @ [c]) right (py_is_cased R c)"

definition str_title :: "runtime \<Rightarrow> pystr \<Rightarrow> pystr" where
  "str_title R s = do_title R [] s False"

text \<open>What \<open>str.title()\<close> comes to on a string of ASCII characters.\<close>

fun ascii_title :: "pystr \<Rightarrow> bool \<Rightarrow> pystr" where
  "ascii_title [] previous_is_cased = []"
| "ascii_title (c # cs) previous_is_cased =
     (if previous_is_cased then ascii_lower c else ascii_upper c) # ascii_title cs (ascii_alpha c)"

definition replacements :: "(pystr \<times> pystr) list" where
  "replacements =
     [(str ''helix index'', str ''Helix Index''),
      (str ''git status'', str ''Git Status''),
      (str ''query staged'', str ''Query Staged''),
      (str ''index read'', str ''Index Read'')]"

fun apply_replacements :: "(pystr \<times> pystr) list \<Rightarrow> pystr \<Rightarrow> pystr" where
  "apply_replacements [] display = display"
| "apply_replacements ((old, new) # rest) display =
     (if startswith display old then replace_first old new display
      else apply_replacements rest display)"

definition format_benchmark_name :: "runtime \<Rightarrow> pystr \<Rightarrow> pystr" where
  "format_benchmark_name R name =
     str_title R (apply_replacements replacements (replace_all (str ''_'') (str '' '') name))"

text \<open>
  An identifier has a recognized prefix if an entry of the table is a prefix of it once
  the underscores are replaced by spaces.
\<close>

definition recognized_prefix :: "pystr \<Rightarrow> bool" where
  "recognized_prefix name =
     list_ex (\<lambda>(old, new). startswith (replace_all (str ''_'') (str '' '') name) old) replacements"

section \<open>Table Builder\<close>

text \<open>
  The builders take a result set whose values are floats, as the annotations of
  \<open>format_time\<close> and \<open>calculate_speedup\<close> say they are.

  \<open>set_iter R xs\<close> is the order in which \<open>set(xs)\<close> is iterated.

  The sort key of a parameter label, \<open>int(x) if x.isdigit() else 0\<close>. \<open>isdigit\<close>
  holds for a non-empty string of digits, which include characters such as the
  superscript two that \<open>int\<close> rejects with \<open>ValueError\<close>. \<open>sorted\<close> computes the key
  of every element before it sorts, and it sorts stably.
\<close>

definition set_iter :: "runtime \<Rightarrow> pystr list \<Rightarrow> pystr list" where
  "set_iter R xs = sort_key (set_rank R) (remdups xs)"

definition py_isdigit :: "runtime \<Rightarrow> pystr \<Rightarrow> bool" where
  "py_isdigit R s =
     (s \<noteq> [] \<and> list_all (\<lambda>c. if c < 128 then 48 \<le> c \<and> c \<le> 57 else is_digit R c) s)"

definition param_key :: "runtime \<Rightarrow> pystr \<Rightarrow> error + int" where
  "param_key R x = (if py_isdigit R x then py_int R x else Inr 0)"

fun first_error :: "(error + 'a) list \<Rightarrow> error option" where
  "first_error [] = None"
| "first_error (Inl e # xs) = Some e"
| "first_error (Inr v # xs) = first_error xs"

definition sorted_params :: "runtime \<Rightarrow> pystr list \<Rightarrow> error + pystr list" where
  "sorted_params R xs =
     (case first_error (map (param_key R) xs) of
        Some e \<Rightarrow> Inl e
      | None \<Rightarrow> Inr (sort_key (\<lambda>x. case param_key R x of Inr k \<Rightarrow> k | Inl e \<Rightarrow> 0) xs))"

text \<open>
  The loop \<open>col_widths[i] = max(col_widths[i], len(cell))\<close> over the cells of one row.
  Every row has as many cells as there are headers, so the index is always in range; the
  last equation is the case that does not arise.
\<close>

fun widen :: "nat list \<Rightarrow> pystr list \<Rightarrow> nat list" where
  "widen ws [] = ws"
| "widen (w # ws) (cell # row) = max w (length cell) # widen ws row"
| "widen [] (cell # row) = []"

definition separator_line :: "nat list \<Rightarrow> pystr" where
  "separator_line col_widths =
     str ''|'' @ join (str ''|'') (map (\<lambda>w. replicate (w + 2) 45) col_widths) @ str ''|''"

definition left_line :: "nat list \<Rightarrow> pystr list \<Rightarrow> pystr" where
  "left_line col_widths cells =
     str ''| '' @ join (str '' | '') (map (\<lambda>(cell, w). ljust w cell) (zip cells col_widths))
     @ str '' |''"

fun justify_cells :: "nat \<Rightarrow> (pystr \<times> nat) list \<Rightarrow> pystr list" where
  "justify_cells i [] = []"
| "justify_cells i ((cell, w) # rest) =
     (if 0 < i then rjust w cell else ljust w cell) # justify_cells (Suc i) rest"

definition row_line :: "nat list \<Rightarrow> pystr list \<Rightarrow> pystr" where
  "row_line col_widths row =
     str ''| '' @ join (str '' | '') (justify_cells 0 (zip row col_widths)) @ str '' |''"

definition table_row :: "runtime \<Rightarrow> float64 results \<Rightarrow> pystr list \<Rightarrow> pystr \<Rightarrow> pystr list" where
  "table_row R results all_params bench_name =
     (let bench_results = dict_get results bench_name []
      in format_benchmark_name R bench_name
         # map (\<lambda>param. case map_of bench_results param of
                            Some ns \<Rightarrow> format_time ns
                          | None \<Rightarrow> str ''N/A'') all_params)"

definition build_aligned_table :: "runtime \<Rightarrow> float64 results \<Rightarrow> error + pystr" where
  "build_aligned_table R results =
     (case sorted_params R (set_iter R (concat (map (\<lambda>(b, bench_results). map fst bench_results) results))) of
        Inl e \<Rightarrow> Inl e
      | Inr all_params \<Rightarrow>
          (let rows = map (table_row R results all_params) (sort (map fst results));
               headers = str ''Benchmark'' # map (\<lambda>p. p @ str '' files'') all_params;
               col_widths = foldl widen (map length headers) rows;
               header_line = left_line col_widths headers;
               separator = separator_line col_widths
           in Inr (join [10] ([header_line, separator] @ map (row_line col_widths) rows))))"

section \<open>Comparison Builder\<close>

text \<open>
  The rows that one parameter of the baseline contributes. \<open>param\<close> comes from the
  keys of \<open>git_baseline\<close>, so the test \<open>param not in git_baseline\<close> of the source
  never holds and the lookup of \<open>git_time\<close> finds the key.
\<close>

definition helix_row :: "pystr \<Rightarrow> pystr \<Rightarrow> float64 \<Rightarrow> float64 pydict \<Rightarrow> pystr \<Rightarrow> error + pystr list list" where
  "helix_row label marker git_time helix param =
     (case map_of helix param of
        None \<Rightarrow> Inr []
      | Some helix_time \<Rightarrow>
          (case calculate_speedup git_time helix_time of
             Inl e \<Rightarrow> Inl e
           | Inr speedup \<Rightarrow> Inr [[label, format_time helix_time, speedup, marker]]))"

fun comparison_rows :: "float64 pydict \<Rightarrow> float64 pydict \<Rightarrow> float64 pydict \<Rightarrow> pystr list \<Rightarrow> error + pystr list list" where
  "comparison_rows git_baseline helix_first helix_cached [] = Inr []"
| "comparison_rows git_baseline helix_first helix_cached (param # rest) =
     (case map_of git_baseline param of
        None \<Rightarrow> comparison_rows git_baseline helix_first helix_cached rest
      | Some git_time \<Rightarrow>
          (case helix_row (str ''  Helix (first run)'') [] git_time helix_first param of
             Inl e \<Rightarrow> Inl e
           | Inr first_rows \<Rightarrow>
               (case helix_row (str ''  Helix (cached)'') [9889] git_time helix_cached param of
                  Inl e \<Rightarrow> Inl e
                | Inr cached_rows \<Rightarrow>
                    (case comparison_rows git_baseline helix_first helix_cached rest of
                       Inl e \<Rightarrow> Inl e
                     | Inr others \<Rightarrow>
                         Inr ([[str ''Git status ('' @ param @ str '' files)'', format_time git_time,
                                str ''-'', str ''-'']]
                              @ first_rows @ cached_rows @ [[[], [], [], []]] @ others)))))"

definition build_comparison_table :: "runtime \<Rightarrow> float64 results \<Rightarrow> error + pystr" where
  "build_comparison_table R results =
     (let git_baseline = dict_get results (str ''git_status_baseline'') [];
          helix_cached = dict_get results (str ''helix_index_cached_run'') [];
          helix_first = dict_get results (str ''helix_index_first_run'') []
      in if git_baseline = [] \<or> helix_cached = [] then Inr []
         else case sorted_params R (map fst git_baseline) of
           Inl e \<Rightarrow> Inl e
         | Inr all_params \<Rightarrow>
             (case comparison_rows git_baseline helix_first helix_cached all_params of
                Inl e \<Rightarrow> Inl e
              | Inr rows \<Rightarrow>
                  (let headers = [str ''Operation'', str ''Time'', str ''vs Git'', []];
                       col_widths = foldl widen (map length headers) rows;
                       header_line = left_line col_widths headers;
                       separator = separator_line col_widths
                   in Inr (join [10]
                        ([str ''## Performance Comparison'' @ [10], header_line, separator]
                         @ map (left_line col_widths)
                             (filter (\<lambda>row. \<not> list_all (\<lambda>cell. cell = []) row) rows))))))"

section \<open>Summary Builder\<close>

text \<open>
  The loop that collects the ratios. The test \<open>helix_time > 0\<close> leaves a divisor that
  is no zero, so the division raises nothing.
\<close>

fun speedups :: "float64 pydict \<Rightarrow> float64 pydict \<Rightarrow> float64 list" where
  "speedups [] helix_cached = []"
| "speedups ((param, git_time) # rest) helix_cached =
     (case map_of helix_cached param of
        None \<Rightarrow> speedups rest helix_cached
      | Some helix_time \<Rightarrow>
          if gt helix_time 0 then ieee_div git_time helix_time # speedups rest helix_cached
          else speedups rest helix_cached)"

definition summary_lines :: "float64 results \<Rightarrow> pystr list" where
  "summary_lines results =
     (let git_baseline = dict_get results (str ''git_status_baseline'') [];
          helix_cached = dict_get results (str ''helix_index_cached_run'') [];
          query_staged = dict_get results (str ''query_staged'') [];
          helix_open = dict_get results (str ''helix_index_open'') [];
          sp = speedups git_baseline helix_cached
      in [str ''## Summary Statistics'' @ [10]]
         @ (if sp \<noteq> [] then
              [str ''**Average speedup (cached):** '' @ fmt 1 (average sp)
               @ str ''x faster than git'']
            else [])
         @ (if query_staged \<noteq> [] then
              [str ''**Average query time:** '' @ format_time (average (map snd query_staged))]
            else [])
         @ (if helix_open \<noteq> [] then
              [str ''**Average index load time:** '' @ format_time (average (map snd helix_open))]
            else []))"

definition build_summary_stats :: "float64 results \<Rightarrow> pystr" where
  "build_summary_stats results =
     (let git_baseline = dict_get results (str ''git_status_baseline'') [];
          helix_cached = dict_get results (str ''helix_index_cached_run'') []
      in if git_baseline = [] \<or> helix_cached = [] then []
         else join [10] (summary_lines results))"

text \<open>
  The result set of the end-to-end example of the specification, and the ratios that the
  average is taken over in the words of the specification: the baseline time divided by
  the cached time, for the parameters of the baseline that the cached family has too,
  without those whose cached time is zero.
\<close>

definition example_results :: "float64 results" where
  "example_results =
     [(str ''git_status_baseline'', [(str ''10'', Finite 100), (str ''100'', Finite 1000)]),
      (str ''helix_index_cached_run'', [(str ''10'', Finite 50), (str ''100'', Finite 200)])]"




section \<open>Archive Writer\<close>

text \<open>
  The archive directory is the list of the names of its entries; \<open>today_str\<close> is
  \<open>date.today().isoformat()\<close>, ten characters of digits and hyphens, so that the
  pattern \<open>f"{today_str}-*.md"\<close> has the one wildcard, which matches any run of
  characters. \<open>sorted\<close> orders the paths of one directory by their names, code point by
  code point, which is the lexicographic order of lists.
\<close>

definition glob_today :: "pystr \<Rightarrow> pystr list \<Rightarrow> pystr list" where
  "glob_today today_str names =
     filter (\<lambda>name. startswith name (today_str @ str ''-'') \<and> endswith name (str ''.md'')
                    \<and> length today_str + 4 \<le> length name) names"

text \<open>
  \<open>Path.stem\<close>: the name without its last suffix; a dot at the start or at the end of
  the name begins no suffix.
\<close>

definition stem :: "pystr \<Rightarrow> pystr" where
  "stem name =
     (let after = takeWhile (\<lambda>c. c \<noteq> 46) (rev name);
          i = length name - length after - 1
      in if 46 \<in> set name \<and> 0 < i \<and> after \<noteq> [] then take i name else name)"

definition next_counter :: "runtime \<Rightarrow> pystr \<Rightarrow> pystr list \<Rightarrow> error + int" where
  "next_counter R today_str names =
     (let existing = sort (glob_today today_str names)
      in if existing \<noteq> [] then
           (case py_int R (last (split_on 45 (stem (last existing)))) of
              Inl e \<Rightarrow> Inl e
            | Inr last_counter \<Rightarrow> Inr (last_counter + 1))
         else Inr 1)"

definition archive_name :: "runtime \<Rightarrow> pystr \<Rightarrow> pystr list \<Rightarrow> error + pystr" where
  "archive_name R today_str names =
     (case next_counter R today_str names of
        Inl e \<Rightarrow> Inl e
      | Inr n \<Rightarrow> Inr (today_str @ str ''-'' @ format_03d n @ str ''.md''))"

text \<open>
  The archives that the writer itself names while a day has no more than 999 of them:
  the date, a hyphen, a counter of three digits and the extension. \<open>counter_value\<close>
  is the number that the three digits denote.
\<close>

definition digit :: "nat \<Rightarrow> bool" where
  "digit c = (48 \<le> c \<and> c \<le> 57)"

definition counter_name :: "pystr \<Rightarrow> nat \<Rightarrow> nat \<Rightarrow> nat \<Rightarrow> pystr" where
  "counter_name today_str a b c = today_str @ [45, a, b, c] @ str ''.md''"

definition counter_value :: "nat \<Rightarrow> nat \<Rightarrow> nat \<Rightarrow> int" where
  "counter_value a b c = int (100 * (a - 48) + 10 * (b - 48) + (c - 48))"

definition three_digit_archives :: "pystr \<Rightarrow> pystr list \<Rightarrow> bool" where
  "three_digit_archives today_str names =
     (\<forall>name \<in> set (glob_today today_str names).
        \<exists>a b c. digit a \<and> digit b \<and> digit c \<and> name = counter_name today_str a b c)"

text \<open>
  The content that \<open>main\<close> writes, from the three sections that the builders return;
  \<open>title\<close> and the heading of the first section are the literals of the source.
\<close>

definition title :: pystr where
  "title = str ''# Helix Benchmark Results'' @ [10]"

definition aligned_section :: "pystr \<Rightarrow> pystr" where
  "aligned_section table = str ''## All Operations'' @ [10, 10] @ table"

definition full_md :: "pystr \<Rightarrow> pystr \<Rightarrow> pystr \<Rightarrow> pystr list" where
  "full_md aligned comparison_section summary_section =
     [title, aligned]
     @ (if comparison_section \<noteq> [] then [[10] @ comparison_section] else [])
     @ (if summary_section \<noteq> [] then [[10] @ summary_section] else [])"

definition archive_content :: "pystr \<Rightarrow> pystr \<Rightarrow> pystr \<Rightarrow> pystr" where
  "archive_content aligned comparison_section summary_section =
     rstrip (join [10, 10] (full_md aligned comparison_section summary_section)) @ [10]"

text \<open>
  The layout in the words of the specification: the title line and the sections, each
  two separated by exactly one blank line, trailing white space trimmed, one newline at
  the end.
\<close>

definition spec_archive_content :: "pystr \<Rightarrow> pystr \<Rightarrow> pystr \<Rightarrow> pystr" where
  "spec_archive_content aligned comparison_section summary_section =
     rstrip (str ''# Helix Benchmark Results'' @ [10, 10] @ aligned
             @ (if comparison_section \<noteq> [] then [10, 10] @ comparison_section else [])
             @ (if summary_section \<noteq> [] then [10, 10] @ summary_section else []))
     @ [10]"

text \<open>
  What \<open>main\<close> prints before it writes the archive: \<open>print(title)\<close>,
  \<open>print(aligned_section)\<close>, and for each of the other two sections that is not
  empty an empty \<open>print()\<close> and the section; every \<open>print\<close> ends its text with a
  newline.
\<close>

definition stdout_report :: "pystr \<Rightarrow> pystr \<Rightarrow> pystr \<Rightarrow> pystr" where
  "stdout_report aligned comparison_section summary_section =
     title @ [10] @ aligned @ [10]
     @ (if comparison_section \<noteq> [] then [10] @ comparison_section @ [10] else [])
     @ (if summary_section \<noteq> [] then [10] @ summary_section @ [10] else [])"

text \<open>The three sections as \<open>main\<close> builds them from the result set.\<close>

definition main_sections :: "runtime \<Rightarrow> float64 results \<Rightarrow> error + pystr \<times> pystr \<times> pystr" where
  "main_sections R results =
     (case build_aligned_table R results of
        Inl e \<Rightarrow> Inl e
      | Inr table \<Rightarrow>
          (case build_comparison_table R results of
             Inl e \<Rightarrow> Inl e
           | Inr comparison_section \<Rightarrow>
               Inr (aligned_section table, comparison_section, build_summary_stats results)))"

text \<open>The sections of the end-to-end example.\<close>

definition example_table :: pystr where
  "example_table =
     str ''| Benchmark              | 10 files | 100 files |'' @ [10] @
     str ''|------------------------|----------|-----------|'' @ [10] @
     str ''| Git Status Baseline    |   100 ns |   1.00 '' @ [181] @ str ''s |'' @ [10] @
     str ''| Helix Index Cached Run |    50 ns |    200 ns |''"

definition example_aligned :: pystr where
  "example_aligned = aligned_section example_table"

definition example_comparison :: pystr where
  "example_comparison =
     str ''## Performance Comparison'' @ [10, 10] @
     str ''| Operation              | Time    | vs Git      |   |'' @ [10] @
     str ''|------------------------|---------|-------------|---|'' @ [10] @
     str ''| Git status (10 files)  | 100 ns  | -           | - |'' @ [10] @
     str ''|   Helix (cached)       | 50 ns   | 2.0x faster | '' @ [9889] @ str '' |'' @ [10] @
     str ''| Git status (100 files) | 1.00 '' @ [181] @ str ''s | -           | - |'' @ [10] @
     str ''|   Helix (cached)       | 200 ns  | 5.0x faster | '' @ [9889] @ str '' |''"

definition example_summary :: pystr where
  "example_summary =
     str ''## Summary Statistics'' @ [10, 10] @
     str ''**Average speedup (cached):** 3.5x faster than git''"

text \<open>
  Two invariants of the walk: every benchmark of the result set has a parameter, and
  every recorded value is what \<open>data["mean"]["point_estimate"]\<close> evaluates to on the
  document of its leaf.
\<close>

definition nonempty_params :: "'v results \<Rightarrow> bool" where
  "nonempty_params rs = (\<forall>(b, ps) \<in> set rs. ps \<noteq> [])"

definition from_leaf :: "tree \<Rightarrow> pystr \<Rightarrow> pystr \<Rightarrow> json \<Rightarrow> bool" where
  "from_leaf t b p v =
     (\<exists>entries d. (b, BenchDir entries) \<in> set t \<and> (p, ParamDir (Document d)) \<in> set entries
        \<and> read_mean d = Inr v)"

definition traced :: "tree \<Rightarrow> json results \<Rightarrow> bool" where
  "traced t rs = (\<forall>b ps p v. (b, ps) \<in> set rs \<longrightarrow> (p, v) \<in> set ps \<longrightarrow> from_leaf t b p v)"

section \<open>Properties of the floats\<close>

text \<open>\<open>ilog2\<close> is the binary exponent, and \<open>round64\<close> rounds as binary64 does.\<close>

lemma bit_length_bounds:
  "0 < n \<Longrightarrow> 2 ^ (bit_length n - 1) \<le> n \<and> n < 2 ^ bit_length n"
proof (induction n rule: bit_length.induct)
  case (1 n)
  show ?case
  proof (cases "n div 2 = 0")
    case True
    with 1 have "n = 1" by auto
    moreover have "bit_length (Suc 0) = Suc 0"
      by (simp add: bit_length.simps [of "Suc 0"] bit_length.simps [of 0])
    ultimately show ?thesis by simp
  next
    case False
    with 1 have ih: "2 ^ (bit_length (n div 2) - 1) \<le> n div 2" "n div 2 < 2 ^ bit_length (n div 2)"
      by auto
    have pos: "0 < bit_length (n div 2)"
      using False by (subst bit_length.simps) simp
    have bl: "bit_length n = Suc (bit_length (n div 2))"
      using 1 by (subst bit_length.simps) simp
    from pos have "(2::nat) ^ bit_length (n div 2) = 2 * 2 ^ (bit_length (n div 2) - 1)"
      by (cases "bit_length (n div 2)") auto
    with ih(1) have "2 ^ bit_length (n div 2) \<le> 2 * (n div 2)" by simp
    then have lo: "2 ^ bit_length (n div 2) \<le> n" by linarith
    from ih(2) have "n < 2 * 2 ^ bit_length (n div 2)" by linarith
    with lo bl show ?thesis by simp
  qed
qed

lemma ilog2_bounds:
  assumes "0 < a"
  shows "pow2 (ilog2 a) \<le> a \<and> a < pow2 (ilog2 a + 1)"
proof (cases "1 \<le> a")
  case True
  define n where "n = nat \<lfloor>a\<rfloor>"
  from True have n: "0 < n" "of_nat n \<le> a" "a < of_nat n + 1"
    by (simp_all add: n_def) linarith+
  from bit_length_bounds [OF n(1)]
  have b: "2 ^ (bit_length n - 1) \<le> n" "n < 2 ^ bit_length n" by auto
  have pos: "0 < bit_length n" using n(1) by (subst bit_length.simps) simp
  have e: "ilog2 a = int (bit_length n) - 1"
    using True by (simp add: ilog2_def n_def)
  have "pow2 (ilog2 a) = of_nat (2 ^ (bit_length n - 1))"
    using pos by (simp add: e pow2_def nat_diff_distrib')
  also have "\<dots> \<le> of_nat n" using b(1) by (simp only: of_nat_le_iff)
  finally have lo: "pow2 (ilog2 a) \<le> a" using n(2) by simp
  from b(2) have "Suc n \<le> 2 ^ bit_length n" by simp
  then have "(of_nat (Suc n) :: rat) \<le> of_nat (2 ^ bit_length n)"
    by (simp only: of_nat_le_iff)
  then have "of_nat n + 1 \<le> (of_nat (2 ^ bit_length n) :: rat)" by simp
  with n(3) have "a < of_nat (2 ^ bit_length n)" by simp
  moreover have "pow2 (ilog2 a + 1) = of_nat (2 ^ bit_length n)"
    by (simp add: e pow2_def)
  ultimately show ?thesis using lo by simp
next
  case False
  define y where "y = 1 / a"
  from False assms have y: "1 < y" by (simp add: y_def)
  define m where "m = nat \<lceil>y\<rceil>"
  from y have m: "2 \<le> m" "y \<le> of_nat m" "of_nat (m - 1) < y"
    by (simp_all add: m_def) linarith+
  then have m1: "0 < m - 1" by simp
  define j where "j = bit_length (m - 1)"
  from bit_length_bounds [OF m1]
  have b: "2 ^ (j - 1) \<le> m - 1" "m - 1 < 2 ^ j" by (auto simp: j_def)
  have pos: "0 < j" using m1 unfolding j_def by (subst bit_length.simps) simp
  have e: "ilog2 a = - int j"
    using False by (simp add: ilog2_def j_def m_def y_def)
  from b(2) have "m \<le> 2 ^ j" by simp
  then have "(of_nat m :: rat) \<le> of_nat (2 ^ j)" by (simp only: of_nat_le_iff)
  then have mm: "(of_nat m :: rat) \<le> 2 ^ j" by simp
  from m(2) mm have "y \<le> 2 ^ j" by (rule order_trans)
  then have "1 / 2 ^ j \<le> a"
    using assms by (simp add: y_def field_simps)
  then have lo: "pow2 (ilog2 a) \<le> a"
    using pos by (simp add: e pow2_def)
  from b(1) have "(of_nat (2 ^ (j - 1)) :: rat) \<le> of_nat (m - 1)"
    by (simp only: of_nat_le_iff)
  then have "(2 ^ (j - 1) :: rat) \<le> of_nat (m - 1)" by simp
  from this m(3) have "2 ^ (j - 1) < y" by (rule le_less_trans)
  then have "a < 1 / 2 ^ (j - 1)"
    using assms by (simp add: y_def field_simps)
  moreover have "pow2 (ilog2 a + 1) = 1 / 2 ^ (j - 1)"
    using pos by (cases j) (simp_all add: e pow2_def)
  ultimately show ?thesis using lo by simp
qed

lemma float_examples:
  "ieee_div (Finite 1) (Finite 3) = Finite (6004799503160661 / 18014398509481984)"
  "ieee_add (Finite 1) (Finite (1 / 9007199254740992)) = Finite 1"
  "ieee_add (Finite 1) (Finite (3 / 9007199254740992))
     = Finite (4503599627370498 / 4503599627370496)"
  "ieee_div (Finite (- 1)) PosInf = NegZero"
  "ieee_add PosInf NegInf = NaN"
  "ieee_add NegZero (Finite 0) = Finite 0"
  "truediv (Finite 1) NegZero = Inl ZeroDivisionError"
  by code_simp+

section \<open>Properties of the speedup annotation\<close>

lemma round64_examples:
  "round64 (23 / 20) = Finite (2589569785738035 / 2251799813685248)"
  "round64 (1 / 10) = Finite (3602879701896397 / 36028797018963968)"
  "round64 (7 / 2) = Finite (7 / 2)"
  by code_simp+

lemma calculate_speedup_examples:
  "calculate_speedup (Finite 100) (Finite 50) = Inr (str ''2.0x faster'')"
  "calculate_speedup (Finite 50) (Finite 100) = Inr (str ''2.0x slower'')"
  "calculate_speedup (Finite 70) (Finite 70) = Inr (str ''same'')"
  "calculate_speedup (Finite 70) (Finite 0) = Inr [8734]"
  "calculate_speedup (Finite 23) (Finite 20) = Inr (str ''1.1x faster'')"
  by code_simp+

text \<open>
  C3: for all non-negative baseline and candidate times the annotation is the infinity
  sign, a \<open>faster\<close> figure, a \<open>slower\<close> figure with \<open>1 / ratio\<close>, or \<open>same\<close>. For a
  baseline time of zero and a positive candidate time the ratio is zero, which is less
  than one, and the \<open>slower\<close> branch divides by it: the call raises
  \<open>ZeroDivisionError\<close> and returns no annotation.
\<close>

theorem calculate_speedup_zero_baseline_raises:
  "calculate_speedup (Finite 0) (Finite 5) = Inl ZeroDivisionError"
  by (simp add: calculate_speedup_def ieee_div_def signed_zero_def truediv_def)

section \<open>Properties of the Result Collector\<close>

lemma set_dict_set: "x \<in> set (dict_set d k v) \<Longrightarrow> x = (k, v) \<or> x \<in> set d"
  by (induction d) (auto split: if_splits)

lemma Nil_neq_dict_set: "[] \<noteq> dict_set d k v"
  by (cases d) (auto split: if_splits)

lemma dict_set_fresh: "map_of d k = None \<Longrightarrow> dict_set d k v = d @ [(k, v)]"
  by (induction d) (auto split: if_splits)

lemma dict_set_last: "map_of d k = None \<Longrightarrow> dict_set (d @ [(k, x)]) k v = d @ [(k, v)]"
  by (induction d) (auto split: if_splits)

lemma record_mean_fresh:
  "map_of rs b = None \<Longrightarrow> record_mean rs b p v = rs @ [(b, [(p, v)])]"
  by (simp add: record_mean_def Let_def dict_set_fresh dict_set_last dict_get_def map_add_def)

lemma record_mean_known:
  "map_of rs b = Some ps \<Longrightarrow> record_mean rs b p v = dict_set rs b (dict_set ps p v)"
  by (simp add: record_mean_def Let_def dict_get_def)

lemma record_mean_nonempty:
  "nonempty_params rs \<Longrightarrow> nonempty_params (record_mean rs b p v)"
proof (cases "map_of rs b")
  case None
  assume "nonempty_params rs"
  then show ?thesis
    by (simp add: record_mean_fresh [OF None] nonempty_params_def)
next
  case (Some ps)
  assume "nonempty_params rs"
  then show ?thesis
    unfolding record_mean_known [OF Some] nonempty_params_def
    by (auto dest!: set_dict_set simp: Nil_neq_dict_set)
qed

lemma scan_params_nonempty:
  "scan_params b es rs = Inr rs' \<Longrightarrow> nonempty_params rs \<Longrightarrow> nonempty_params rs'"
  by (induction b es rs rule: scan_params.induct)
     (auto split: sum.splits if_splits simp: record_mean_nonempty)

lemma scan_benches_nonempty:
  "scan_benches t rs = Inr rs' \<Longrightarrow> nonempty_params rs \<Longrightarrow> nonempty_params rs'"
  by (induction t rs rule: scan_benches.induct)
     (auto split: sum.splits dest: scan_params_nonempty)

lemma record_mean_traced:
  assumes "traced t rs" and "from_leaf t b p v"
  shows "traced t (record_mean rs b p v)"
proof (cases "map_of rs b")
  case None
  from assms show ?thesis
    by (auto simp: record_mean_fresh [OF None] traced_def)
next
  case (Some ps)
  then have "(b, ps) \<in> set rs" by (rule map_of_SomeD)
  with assms show ?thesis
    unfolding record_mean_known [OF Some] traced_def
    by (fastforce dest!: set_dict_set)
qed

lemma scan_params_traced:
  "scan_params b es rs = Inr rs' \<Longrightarrow> traced t rs \<Longrightarrow>
   (b, BenchDir all) \<in> set t \<Longrightarrow> set es \<subseteq> set all \<Longrightarrow> traced t rs'"
proof (induction b es rs rule: scan_params.induct)
  case (1 b rs)
  then show ?case by simp
next
  case (2 b p rest rs)
  then show ?case by simp
next
  case (3 b p f rest rs)
  show ?case
  proof (cases "try_estimates f")
    case (Inl e)
    with 3 show ?thesis
      by (auto split: if_splits)
  next
    case (Inr v)
    then obtain d where d: "f = Document d" "read_mean d = Inr v"
      by (auto simp: try_estimates_def json_load_def split: estimates.splits)
    with "3.prems" have "from_leaf t b p v"
      by (auto simp: from_leaf_def)
    with "3.prems"(2) have "traced t (record_mean rs b p v)"
      by (rule record_mean_traced)
    with 3 Inr d show ?thesis
      by simp
  qed
qed

lemma scan_benches_traced:
  "scan_benches es rs = Inr rs' \<Longrightarrow> traced t rs \<Longrightarrow> set es \<subseteq> set t \<Longrightarrow> traced t rs'"
proof (induction es rs rule: scan_benches.induct)
  case (1 rs)
  then show ?case by simp
next
  case (2 b rest rs)
  then show ?case by simp
next
  case (3 b entries rest rs)
  from "3.prems"(1) obtain rs1 where
    s1: "scan_params b entries rs = Inr rs1" and s2: "scan_benches rest rs1 = Inr rs'"
    by (auto split: sum.splits)
  from "3.prems"(3) have "(b, BenchDir entries) \<in> set t" by simp
  with s1 "3.prems"(2) have "traced t rs1"
    by (rule scan_params_traced) simp
  with "3.IH" [OF s1 s2] "3.prems"(3) show ?case by simp
qed

text \<open>
  C1: with a readable root the collector is claimed never to raise, a leaf whose record
  is absent, malformed or without the numeric mean field being skipped. The handler
  catches \<open>JSONDecodeError\<close> and \<open>KeyError\<close> only. A record that is valid JSON but
  whose \<open>mean\<close> is not an object, here \<open>{"mean": 5}\<close>, makes
  \<open>data["mean"]["point_estimate"]\<close> raise \<open>TypeError\<close>, which leaves the function.
\<close>

theorem parse_criterion_results_type_error:
  "parse_criterion_results
     [(str ''bench'', BenchDir [(str ''10'', ParamDir (Document (JObj [(str ''mean'', JInt 5)])))])]
   = Inl TypeError"
  by (simp add: parse_criterion_results_def try_estimates_def json_load_def read_mean_def
      caught_def)

lemma parse_criterion_results_skips:
  "parse_criterion_results
     [(str ''notes.txt'', BenchFile),
      (str ''bench'', BenchDir
        [(str ''report'', ParamFile),
         (str ''10'', ParamDir NoFile),
         (str ''100'', ParamDir NotJson),
         (str ''1000'', ParamDir (Document (JObj [(str ''median'', JInt 5)]))),
         (str ''5000'', ParamDir (Document (JObj [(str ''mean'', JObj [])])))])]
   = Inr []"
  by (simp add: parse_criterion_results_def try_estimates_def json_load_def read_mean_def
      caught_def)

text \<open>
  C2, as stated: every recorded mean is a number and is not negative, whatever the
  records hold. The collector stores the value of the field as it is: a record with
  \<open>point_estimate\<close> \<open>-5\<close> is recorded with the mean \<open>-5\<close>.
\<close>

theorem parse_criterion_results_negative_mean:
  "parse_criterion_results
     [(str ''bench'', BenchDir [(str ''10'',
        ParamDir (Document (JObj [(str ''mean'', JObj [(str ''point_estimate'', JInt (- 5))])])))])]
   = Inr [(str ''bench'', [(str ''10'', JInt (- 5))])]
   \<and> \<not> all_means_valid [(str ''bench'', [(str ''10'', JInt (- 5))])]"
  by (simp add: parse_criterion_results_def try_estimates_def json_load_def read_mean_def
      caught_def record_mean_def dict_get_def all_means_valid_def)

text \<open>
  C2, amended: every entry of the returned result set holds exactly the value found
  under \<open>mean\<close>, \<open>point_estimate\<close> in the estimates document of a parameter
  directory with that label below a benchmark directory with that name; the value is
  not checked to be a number or to be non-negative.
\<close>

theorem parse_criterion_results_records_field:
  assumes "parse_criterion_results t = Inr rs" and "(b, ps) \<in> set rs" and "(p, v) \<in> set ps"
  shows "\<exists>entries d. (b, BenchDir entries) \<in> set t \<and> (p, ParamDir (Document d)) \<in> set entries
           \<and> read_mean d = Inr v"
proof -
  have "traced t rs"
    using assms(1) scan_benches_traced [of t "[]" rs t]
    by (simp add: parse_criterion_results_def traced_def)
  with assms(2,3) show ?thesis
    by (auto simp: traced_def from_leaf_def)
qed

theorem parse_criterion_results_records_field_witness:
  "parse_criterion_results
     [(str ''query'', BenchDir [(str ''100'',
        ParamDir (Document (JObj [(str ''mean'', JObj [(str ''point_estimate'', JInt 42)])])))])]
   = Inr [(str ''query'', [(str ''100'', JInt 42)])]
   \<and> (\<exists>entries d.
        (str ''query'', BenchDir entries) \<in> set
          [(str ''query'', BenchDir [(str ''100'',
             ParamDir (Document (JObj [(str ''mean'', JObj [(str ''point_estimate'', JInt 42)])])))])]
        \<and> (str ''100'', ParamDir (Document d)) \<in> set entries
        \<and> read_mean d = Inr (JInt 42))"
proof -
  let ?t = "[(str ''query'', BenchDir [(str ''100'',
        ParamDir (Document (JObj [(str ''mean'', JObj [(str ''point_estimate'', JInt 42)])])))])]"
  have run: "parse_criterion_results ?t = Inr [(str ''query'', [(str ''100'', JInt 42)])]"
    by (simp add: parse_criterion_results_def try_estimates_def json_load_def read_mean_def
        caught_def record_mean_def dict_get_def)
  from parse_criterion_results_records_field
         [OF run, of "str ''query''" "[(str ''100'', JInt 42)]" "str ''100''" "JInt 42"]
  show ?thesis using run by simp
qed

text \<open>
  C10: in every result set that the collector returns, every benchmark name maps to a
  non-empty parameter mapping, so a family is absent exactly when looking it up with
  the empty mapping as default, as the builders do, gives the empty mapping.
\<close>

theorem parse_criterion_results_nonempty_families:
  assumes "parse_criterion_results t = Inr rs"
  shows "(\<forall>(b, ps) \<in> set rs. ps \<noteq> []) \<and>
         (\<forall>name. (dict_get rs name [] = []) = (map_of rs name = None))"
proof -
  have ne: "nonempty_params rs"
    using assms scan_benches_nonempty [of t "[]" rs]
    by (simp add: parse_criterion_results_def nonempty_params_def)
  have "(dict_get rs name [] = []) = (map_of rs name = None)" for name
  proof (cases "map_of rs name")
    case None
    then show ?thesis by (simp add: dict_get_def)
  next
    case (Some ps)
    then have "(name, ps) \<in> set rs" by (rule map_of_SomeD)
    with ne have "ps \<noteq> []" by (auto simp: nonempty_params_def)
    with Some show ?thesis by (simp add: dict_get_def)
  qed
  with ne show ?thesis by (simp add: nonempty_params_def)
qed

theorem parse_criterion_results_nonempty_families_witness:
  "parse_criterion_results
     [(str ''idle'', BenchDir [(str ''10'', ParamDir NoFile)]),
      (str ''git_status_baseline'', BenchDir [(str ''10'',
        ParamDir (Document (JObj [(str ''mean'', JObj [(str ''point_estimate'', JInt 100)])])))])]
   = Inr [(str ''git_status_baseline'', [(str ''10'', JInt 100)])]
   \<and> [(str ''10'', JInt 100)] \<noteq> []
   \<and> dict_get [(str ''git_status_baseline'', [(str ''10'', JInt 100)])] (str ''idle'') [] = []
   \<and> map_of [(str ''git_status_baseline'', [(str ''10'', JInt 100)])] (str ''idle'') = None"
proof -
  let ?t = "[(str ''idle'', BenchDir [(str ''10'', ParamDir NoFile)]),
      (str ''git_status_baseline'', BenchDir [(str ''10'',
        ParamDir (Document (JObj [(str ''mean'', JObj [(str ''point_estimate'', JInt 100)])])))])]"
  have run: "parse_criterion_results ?t = Inr [(str ''git_status_baseline'', [(str ''10'', JInt 100)])]"
    by (simp add: parse_criterion_results_def try_estimates_def json_load_def read_mean_def
        caught_def record_mean_def dict_get_def)
  from parse_criterion_results_nonempty_families [OF run]
  show ?thesis using run by simp
qed

section \<open>Properties of the Archive Writer\<close>

lemma archive_name_examples:
  "archive_name sample_runtime (str ''2024-01-01'')
     [str ''2024-01-01-002.md'', str ''2023-12-31-007.md'', str ''2024-01-01-001.md'']
   = Inr (str ''2024-01-01-003.md'')"
  "archive_name sample_runtime (str ''2024-01-01'') [str ''2023-12-31-007.md'']
   = Inr (str ''2024-01-01-001.md'')"
  "archive_name sample_runtime (str ''2024-01-01'') [] = Inr (str ''2024-01-01-001.md'')"
  by code_simp+

lemma archive_name_not_a_counter:
  "archive_name sample_runtime (str ''2024-01-01'') [str ''2024-01-01-notes.md'']
   = Inl ValueError"
  by code_simp

text \<open>
  While every archive of today carries a counter of three digits, the writer does what
  is expected of it: the new counter is above every existing one, it is one more than
  an existing one (or 1 if there is none), and the file that it names does not exist.
\<close>

lemma py_int_three_digits:
  assumes "digit a" "digit b" "digit c" and "max_str_digits R = 0 \<or> 3 \<le> max_str_digits R"
  shows "py_int R [a, b, c] = Inr (counter_value a b c)"
  using assms
  by (auto simp: py_int_def digit_def int_space_def int_digit_def Let_def counter_value_def)

lemma split_on_not_Nil: "split_on c s \<noteq> []"
  by (induction s) (auto split: list.splits)

lemma split_on_append: "split_on c (p @ c # w) = split_on c p @ split_on c w"
proof (induction p)
  case Nil
  show ?case by simp
next
  case (Cons x p)
  obtain g gs where "split_on c p = g # gs"
    using split_on_not_Nil [of c p] by (cases "split_on c p") auto
  with Cons show ?case by simp
qed

lemma split_on_absent: "c \<notin> set w \<Longrightarrow> split_on c w = [w]"
  by (induction w) auto

lemma last_split_on: "c \<notin> set w \<Longrightarrow> last (split_on c (p @ c # w)) = w"
  by (simp add: split_on_append split_on_absent)

lemma stem_md: "x \<noteq> [] \<Longrightarrow> stem (x @ str ''.md'') = x"
  by (simp add: stem_def Let_def)

lemma counter_of_name:
  assumes "digit a" "digit b" "digit c" and "max_str_digits R = 0 \<or> 3 \<le> max_str_digits R"
  shows "py_int R (last (split_on 45 (stem (counter_name today_str a b c)))) = Inr (counter_value a b c)"
proof -
  have "stem (counter_name today_str a b c) = today_str @ 45 # [a, b, c]"
    using stem_md [of "today_str @ [45, a, b, c]"] by (simp add: counter_name_def)
  moreover have "45 \<notin> set [a, b, c]"
    using assms(1-3) by (auto simp: digit_def)
  ultimately have "last (split_on 45 (stem (counter_name today_str a b c))) = [a, b, c]"
    using last_split_on by metis
  with assms show ?thesis by (simp add: py_int_three_digits)
qed

lemma append_le_cancel: "(p @ u \<le> p @ v) = (u \<le> (v :: nat list))"
  by (induction p) auto

lemma counter_name_le:
  assumes "digit a" "digit b" "digit c" "digit x" "digit y" "digit z"
    and "counter_name t x y z \<le> counter_name t a b c"
  shows "counter_value x y z \<le> counter_value a b c"
  using assms
  by (auto simp: counter_name_def append_le_cancel digit_def counter_value_def)


lemma digits_one: "n < 10 \<Longrightarrow> digits n = [48 + n]"
  by (subst digits.simps) simp

lemma digits_more: "\<not> n < 10 \<Longrightarrow> digits n = digits (n div 10) @ [48 + n mod 10]"
  by (subst digits.simps) simp

lemma length_digits: "0 < length (digits n)"
  by (cases "n < 10") (simp_all add: digits_one digits_more)

lemma format_03d_small:
  assumes "n < 1000"
  shows "format_03d (int n) = [48 + n div 100, 48 + n div 10 mod 10, 48 + n mod 10]"
proof -
  consider "n < 10" | "10 \<le> n" "n < 100" | "100 \<le> n"
    by linarith
  then show ?thesis
  proof cases
    case 1
    then show ?thesis
      by (simp add: format_03d_def digits_one numeral_3_eq_3 numeral_2_eq_2)
  next
    case 2
    then have "digits n = [48 + n div 10, 48 + n mod 10]"
      by (simp add: digits_more digits_one)
    with 2 show ?thesis
      by (simp add: format_03d_def)
  next
    case 3
    have h: "n div 10 div 10 = n div 100" by (simp add: div_mult2_eq)
    from 3 assms have "\<not> n < 10" "\<not> n div 10 < 10" "n div 10 div 10 < 10" by auto
    then have "digits n = [48 + n div 10 div 10, 48 + n div 10 mod 10, 48 + n mod 10]"
      by (simp add: digits_more digits_one)
    then show ?thesis
      by (simp add: format_03d_def h)
  qed
qed

lemma format_03d_large:
  assumes "1000 \<le> n"
  shows "3 < length (format_03d (int n))"
proof -
  from assms have a: "\<not> n < 10" "\<not> n div 10 < 10" "\<not> n div 10 div 10 < 10" by auto
  have "0 < length (digits (n div 10 div 10 div 10))" by (rule length_digits)
  with a show ?thesis
    by (simp add: format_03d_def digits_more)
qed

lemma le_last_sorted:
  fixes ys :: "pystr list"
  shows "sorted ys \<Longrightarrow> x \<in> set ys \<Longrightarrow> x \<le> last ys"
  by (induction ys) auto

lemma le_last_sort:
  fixes xs :: "pystr list"
  assumes "x \<in> set xs"
  shows "x \<le> last (sort xs)"
  using assms le_last_sorted [of "sort xs" x] by simp

lemma last_sort_in:
  fixes xs :: "pystr list"
  assumes "xs \<noteq> []"
  shows "last (sort xs) \<in> set xs"
proof -
  from assms have "sort xs \<noteq> []" by (metis length_sort length_0_conv)
  then have "last (sort xs) \<in> set (sort xs)" by (rule last_in_set)
  then show ?thesis by simp
qed


lemma in_glob_today:
  assumes "name \<in> set names" and "name = today_str @ [45] @ w @ str ''.md''"
  shows "name \<in> set (glob_today today_str names)"
  using assms by (simp add: glob_today_def startswith_def endswith_def)

lemma digits_value: "100 * (m div 100) + 10 * (m div 10 mod 10) + m mod 10 = (m :: nat)"
proof -
  have a: "m div 10 div 10 = m div 100" by (simp add: div_mult2_eq)
  have "10 * (m div 10 div 10) + m div 10 mod 10 = m div 10" by simp
  with a have "10 * (10 * (m div 100) + m div 10 mod 10) + m mod 10 = 10 * (m div 10) + m mod 10"
    by simp
  also have "\<dots> = m" by simp
  finally show ?thesis by simp
qed

lemma archive_name_three_digits:
  assumes H: "three_digit_archives today_str names"
      and lim: "max_str_digits R = 0 \<or> 3 \<le> max_str_digits R"
  shows "\<exists>n. next_counter R today_str names = Inr n
           \<and> archive_name R today_str names = Inr (today_str @ [45] @ format_03d n @ str ''.md'')
           \<and> today_str @ [45] @ format_03d n @ str ''.md'' \<notin> set names
           \<and> (\<forall>a b c. digit a \<and> digit b \<and> digit c \<and> counter_name today_str a b c \<in> set names
                 \<longrightarrow> counter_value a b c < n)
           \<and> (glob_today today_str names = [] \<longrightarrow> n = 1)
           \<and> (glob_today today_str names \<noteq> [] \<longrightarrow>
                 (\<exists>a b c. digit a \<and> digit b \<and> digit c \<and> counter_name today_str a b c \<in> set names
                    \<and> n = counter_value a b c + 1))"
proof -
  let ?E = "glob_today today_str names"
  define below where "below n \<longleftrightarrow>
    (\<forall>a b c. digit a \<and> digit b \<and> digit c \<and> counter_name today_str a b c \<in> set names
       \<longrightarrow> counter_value a b c < n)" for n
  define top where "top n \<longleftrightarrow>
    (\<exists>a b c. digit a \<and> digit b \<and> digit c \<and> counter_name today_str a b c \<in> set names
       \<and> n = counter_value a b c + 1)" for n
  have in_E: "counter_name today_str a b c \<in> set ?E" if "counter_name today_str a b c \<in> set names"
    for a b c
    using that in_glob_today [of _ names today_str "[a, b, c]"] by (simp add: counter_name_def)
  have "\<exists>n. next_counter R today_str names = Inr n \<and> below n \<and> 0 < n
           \<and> (?E = [] \<longrightarrow> n = 1) \<and> (?E \<noteq> [] \<longrightarrow> top n)"
  proof (cases "?E = []")
    case True
    have "next_counter R today_str names = Inr 1"
      using True by (simp add: next_counter_def)
    moreover have "below 1"
      unfolding below_def using in_E True by fastforce
    ultimately show ?thesis using True by auto
  next
    case False
    then have mem: "last (sort ?E) \<in> set ?E" by (rule last_sort_in)
    with H obtain a b c where d: "digit a" "digit b" "digit c"
      and L: "last (sort ?E) = counter_name today_str a b c"
      unfolding three_digit_archives_def by blast
    let ?v = "counter_value a b c"
    from False have "sort ?E \<noteq> []" by (metis length_sort length_0_conv)
    then have nc: "next_counter R today_str names = Inr (?v + 1)"
      using L counter_of_name [OF d lim, of today_str]
      by (simp add: next_counter_def Let_def)
    have "counter_value x y z < ?v + 1"
      if "digit x" "digit y" "digit z" "counter_name today_str x y z \<in> set names" for x y z
    proof -
      have "counter_name today_str x y z \<le> last (sort ?E)"
        using in_E [OF that(4)] by (rule le_last_sort)
      then have "counter_value x y z \<le> ?v"
        using counter_name_le [OF d that(1-3)] L by simp
      then show ?thesis by simp
    qed
    then have b: "below (?v + 1)"
      unfolding below_def by blast
    have "counter_name today_str a b c \<in> set names"
      using mem L by (simp add: glob_today_def)
    with d have t: "top (?v + 1)"
      unfolding top_def by blast
    have p: "0 < ?v + 1"
      by (simp add: counter_value_def)
    from nc b t p False show ?thesis by blast
  qed
  then obtain n where n: "next_counter R today_str names = Inr n"
    and below: "below n" and pos: "0 < n"
    and small: "?E = [] \<longrightarrow> n = 1" and big: "?E \<noteq> [] \<longrightarrow> top n"
    by blast
  let ?new = "today_str @ [45] @ format_03d n @ str ''.md''"
  have an: "archive_name R today_str names = Inr ?new"
    using n by (simp add: archive_name_def)
  have fresh: "?new \<notin> set names"
  proof
    assume mem: "?new \<in> set names"
    then have "?new \<in> set ?E"
      using in_glob_today [of ?new names today_str "format_03d n"] by simp
    with H obtain x y z where d: "digit x" "digit y" "digit z"
      and eq: "?new = counter_name today_str x y z"
      unfolding three_digit_archives_def by blast
    from eq have f: "format_03d n = [x, y, z]" by (simp add: counter_name_def)
    from pos obtain m where m: "n = int m" by (metis zero_less_imp_eq_int)
    have "m < 1000"
    proof (rule ccontr)
      assume "\<not> m < 1000"
      then have "3 < length (format_03d (int m))" by (intro format_03d_large) simp
      with f m show False by simp
    qed
    then have "[x, y, z] = [48 + m div 100, 48 + m div 10 mod 10, 48 + m mod 10]"
      using format_03d_small [of m] f m by simp
    then have "counter_value x y z = int m"
      using digits_value [of m] by (simp add: counter_value_def)
    moreover have "counter_name today_str x y z \<in> set names"
      using mem eq by simp
    then have "counter_value x y z < n"
      using below d unfolding below_def by blast
    ultimately show False using m by simp
  qed
  from n an fresh below small big show ?thesis
    unfolding below_def top_def by blast
qed


lemma three_digit_archives_example:
  "three_digit_archives (str ''2024-01-01'')
     [str ''2024-01-01-001.md'', str ''notes.md'', str ''2024-01-01-002.md'']"
  unfolding three_digit_archives_def
  by (simp add: glob_today_def startswith_def endswith_def counter_name_def digit_def)

lemma three_digit_archives_overflow:
  "\<not> three_digit_archives (str ''2024-01-01'')
     [str ''2024-01-01-999.md'', str ''2024-01-01-1000.md'']"
  unfolding three_digit_archives_def
  by (simp add: glob_today_def startswith_def endswith_def counter_name_def digit_def)

text \<open>
  C6: the writer is claimed to take the maximum existing counter of today's archives
  and add one, and never to overwrite an archive. It takes the counter of the last path
  in sorted order, and paths sort as strings: \<open>2024-01-01-1000.md\<close> comes before
  \<open>2024-01-01-999.md\<close>. With both present the last counter is 999, the next one is
  1000, and the file written is \<open>2024-01-01-1000.md\<close>, which exists. The directory
  reaches this state by itself with the thousandth report of a day.
\<close>

theorem archive_name_overwrites:
  "archive_name sample_runtime (str ''2024-01-01'')
     [str ''2024-01-01-999.md'', str ''2024-01-01-1000.md'']
   = Inr (str ''2024-01-01-1000.md'')"
  by code_simp

lemma join_full_md:
  "join [10, 10] (full_md a c s) =
     str ''# Helix Benchmark Results'' @ [10, 10, 10] @ a
     @ (if c \<noteq> [] then [10, 10, 10] @ c else [])
     @ (if s \<noteq> [] then [10, 10, 10] @ s else [])"
  by (simp add: full_md_def title_def)

lemma rstrip_ends:
  assumes "\<exists>x \<in> set s. \<not> is_space x"
  shows "rstrip s \<noteq> [] \<and> \<not> is_space (last (rstrip s))"
proof -
  from assms have ne: "dropWhile is_space (rev s) \<noteq> []"
    by (simp add: dropWhile_eq_Nil_conv)
  then have "\<not> is_space (hd (dropWhile is_space (rev s)))"
    by (rule hd_dropWhile)
  with ne show ?thesis
    by (simp add: rstrip_def last_rev)
qed

text \<open>
  What the archive path writes, for any sections: the title line and the sections in
  their order, three newlines at each boundary, no white space before the one newline
  at the end.
\<close>

lemma archive_content_layout:
  "archive_content a c s =
     rstrip (str ''# Helix Benchmark Results'' @ [10, 10, 10] @ a
             @ (if c = [] then [] else [10, 10, 10] @ c)
             @ (if s = [] then [] else [10, 10, 10] @ s)) @ [10]
   \<and> butlast (archive_content a c s) \<noteq> []
   \<and> \<not> is_space (last (butlast (archive_content a c s)))"
proof -
  let ?body = "join [10, 10] (full_md a c s)"
  have "35 \<in> set ?body" "\<not> is_space 35"
    by (simp_all add: join_full_md is_space_def)
  then have "\<exists>x \<in> set ?body. \<not> is_space x" by blast
  then have "rstrip ?body \<noteq> [] \<and> \<not> is_space (last (rstrip ?body))"
    by (rule rstrip_ends)
  moreover have "archive_content a c s = rstrip ?body @ [10]"
    by (simp add: archive_content_def)
  ultimately show ?thesis
    by (simp add: join_full_md)
qed

section \<open>Properties of the builders\<close>

lemma join_Cons_nonempty: "x \<noteq> [] \<Longrightarrow> join sep (x # xs) \<noteq> []"
  by (cases xs) auto

lemma build_aligned_table_example:
  "build_aligned_table sample_runtime example_results = Inr example_table"
  by code_simp

lemma build_aligned_table_superscript_label:
  "build_aligned_table sample_runtime [(str ''bench'', [([178], Finite 5)])] = Inl ValueError"
  by code_simp

lemma first_error_None:
  "(first_error xs = None) = (\<forall>x \<in> set xs. \<exists>k. x = Inr k)"
  by (induction xs rule: first_error.induct) auto

lemma sorted_params_returns:
  assumes "\<forall>x \<in> set xs. \<exists>k. param_key R x = Inr k"
  shows "\<exists>ys. sorted_params R xs = Inr ys"
proof -
  from assms have "first_error (map (param_key R) xs) = None"
    by (simp add: first_error_None)
  then show ?thesis by (simp add: sorted_params_def)
qed

lemma param_key_not_digits: "\<not> py_isdigit R x \<Longrightarrow> param_key R x = Inr 0"
  by (simp add: param_key_def)

lemma build_aligned_table_returns:
  assumes "\<forall>(b, ps) \<in> set rs. \<forall>(p, v) \<in> set ps. \<exists>k. param_key R p = Inr k"
  shows "\<exists>s. build_aligned_table R rs = Inr s \<and> s \<noteq> []"
proof -
  let ?labels = "set_iter R (concat (map (\<lambda>(b, bench_results). map fst bench_results) rs))"
  have "\<forall>x \<in> set ?labels. \<exists>k. param_key R x = Inr k"
    using assms by (fastforce simp: set_iter_def)
  then obtain ys where "sorted_params R ?labels = Inr ys"
    using sorted_params_returns by blast
  then show ?thesis
    by (simp add: build_aligned_table_def Let_def left_line_def join_Cons_nonempty)
qed

text \<open>
  C8, as stated: the table is the empty string exactly when the result set is empty.
  For the empty result set the builder still emits the header row for the one column
  \<open>Benchmark\<close> and the separator row.
\<close>

theorem build_aligned_table_empty_results:
  "build_aligned_table sample_runtime []
     = Inr (str ''| Benchmark |'' @ [10] @ str ''|-----------|'')
   \<and> build_aligned_table sample_runtime [] \<noteq> Inr []"
  by code_simp

text \<open>
  C8, amended: \<open>build_aligned_table\<close> never returns the empty string. For the empty
  result set it returns the header row and the separator row of the column
  \<open>Benchmark\<close>, and for no result set is its result empty.
\<close>

theorem build_aligned_table_never_empty:
  "build_aligned_table R [] = Inr (str ''| Benchmark |'' @ [10] @ str ''|-----------|'')
   \<and> build_aligned_table R rs \<noteq> Inr []"
proof
  show "build_aligned_table R [] = Inr (str ''| Benchmark |'' @ [10] @ str ''|-----------|'')"
    by (simp add: build_aligned_table_def set_iter_def sorted_params_def left_line_def
        separator_line_def ljust_def)
  show "build_aligned_table R rs \<noteq> Inr []"
    by (auto simp: build_aligned_table_def Let_def left_line_def join_Cons_nonempty
        split: sum.splits)
qed

text \<open>
  C5: when the baseline family \<open>git_status_baseline\<close> or the cached-run family
  \<open>helix_index_cached_run\<close> is absent from the result set, \<open>build_comparison_table\<close>
  returns the empty string and so does \<open>build_summary_stats\<close>, whatever else the
  result set holds.
\<close>

theorem builders_empty_without_families:
  assumes "map_of rs (str ''git_status_baseline'') = None
           \<or> map_of rs (str ''helix_index_cached_run'') = None"
  shows "build_comparison_table R rs = Inr [] \<and> build_summary_stats rs = []"
  using assms
  by (auto simp: build_comparison_table_def build_summary_stats_def dict_get_def Let_def)

theorem builders_empty_without_families_witness:
  "build_comparison_table sample_runtime
     [(str ''helix_index_cached_run'', [(str ''10'', Finite 50)]),
      (str ''query_staged'', [(str ''10'', Finite 5)])]
     = Inr []
   \<and> build_summary_stats
     [(str ''helix_index_cached_run'', [(str ''10'', Finite 50)]),
      (str ''query_staged'', [(str ''10'', Finite 5)])]
     = []"
  using builders_empty_without_families
    [of "[(str ''helix_index_cached_run'', [(str ''10'', Finite 50)]),
          (str ''query_staged'', [(str ''10'', Finite 5)])]"
        sample_runtime]
  by simp

lemma build_comparison_table_example:
  "build_comparison_table sample_runtime example_results = Inr example_comparison"
  by code_simp

lemma build_summary_stats_example:
  "build_summary_stats example_results = example_summary"
  by code_simp

lemma format_time_examples:
  "format_time (Finite 999) = str ''999 ns''"
  "format_time (Finite 1000) = str ''1.00 '' @ [181] @ str ''s''"
  "format_time (Finite 1015) = str ''1.01 '' @ [181] @ str ''s''"
  "format_time (Finite 1234567) = str ''1.23 ms''"
  by code_simp+





lemma build_summary_stats_rounding:
  "build_summary_stats
     [(str ''git_status_baseline'', [(str ''10'', Finite 23)]),
      (str ''helix_index_cached_run'', [(str ''10'', Finite 20)])]
   = str ''## Summary Statistics'' @ [10, 10]
     @ str ''**Average speedup (cached):** 1.1x faster than git''"
  by code_simp

section \<open>The report and its archive\<close>

lemma main_sections_example:
  "main_sections sample_runtime example_results
     = Inr (example_aligned, example_comparison, example_summary)"
  by (simp add: main_sections_def build_aligned_table_example build_comparison_table_example
      build_summary_stats_example example_aligned_def)

lemma rstrip_id: "s \<noteq> [] \<Longrightarrow> \<not> is_space (last s) \<Longrightarrow> rstrip s = s"
  by (cases s rule: rev_cases) (simp_all add: rstrip_def)

lemma example_summary_end: "example_summary \<noteq> []" "last example_summary = 116"
  by (simp_all add: example_summary_def)

lemma example_sections_start:
  "example_comparison \<noteq> []" "example_aligned = 35 # tl example_aligned"
  by (simp_all add: example_comparison_def example_aligned_def aligned_section_def)

text \<open>
  C7: the archive is claimed to hold the title line and the sections with exactly one
  blank line between any two of them. That is the layout of what \<open>main\<close> prints,
  and the archive is to hold the same report. In the archive \<open>title\<close> keeps its
  newline, the later sections are given one in front, and the parts are joined by two
  newlines: for the sections of the end-to-end example, as for any others, three
  newlines, two blank lines, stand at each boundary of the archive.
\<close>

theorem archive_content_two_blank_lines:
  "stdout_report example_aligned example_comparison example_summary
     = spec_archive_content example_aligned example_comparison example_summary
   \<and> archive_content example_aligned example_comparison example_summary
     = str ''# Helix Benchmark Results'' @ [10, 10, 10]
       @ example_aligned @ [10, 10, 10]
       @ example_comparison @ [10, 10, 10]
       @ example_summary @ [10]
   \<and> archive_content example_aligned example_comparison example_summary
     \<noteq> spec_archive_content example_aligned example_comparison example_summary"
proof -
  let ?A = example_aligned and ?C = example_comparison and ?S = example_summary
  have not_space: "\<not> is_space 116" by (simp add: is_space_def)
  have spec: "spec_archive_content ?A ?C ?S
                = str ''# Helix Benchmark Results'' @ [10, 10] @ ?A @ [10, 10] @ ?C @ [10, 10] @ ?S @ [10]"
    unfolding spec_archive_content_def
    by (subst rstrip_id)
       (simp_all add: example_summary_end example_sections_start(1) not_space)
  have arch: "archive_content ?A ?C ?S
                = str ''# Helix Benchmark Results'' @ [10, 10, 10] @ ?A @ [10, 10, 10] @ ?C
                  @ [10, 10, 10] @ ?S @ [10]"
    unfolding archive_content_def join_full_md
    by (subst rstrip_id)
       (simp_all add: example_summary_end example_sections_start(1) not_space)
  have out: "stdout_report ?A ?C ?S = spec_archive_content ?A ?C ?S"
    unfolding spec
    by (simp add: stdout_report_def title_def example_summary_end example_sections_start(1))
  have "archive_content ?A ?C ?S \<noteq> spec_archive_content ?A ?C ?S"
    unfolding spec arch
    by (subst (2) example_sections_start(2)) simp
  with out arch show ?thesis by simp
qed

section \<open>Properties of the Name Formatter\<close>

lemma format_benchmark_name_examples:
  "format_benchmark_name sample_runtime (str ''helix_index_cached_run'') = str ''Helix Index Cached Run''"
  "format_benchmark_name sample_runtime (str ''git_status_baseline'') = str ''Git Status Baseline''"
  "format_benchmark_name sample_runtime (str ''query_staged'') = str ''Query Staged''"
  by code_simp+

lemma replace_all_underscore:
  "replace_all [95] [32] s = map (\<lambda>c. if c = 95 then 32 else c) s"
  by (induction s) (auto simp: startswith_def)

lemma replace_all_no_underscore:
  "95 \<notin> set s \<Longrightarrow> replace_all [95] [32] s = s"
  by (induction s) (auto simp: startswith_def)

lemma do_title_ascii:
  "\<forall>c \<in> set s. c < 128 \<Longrightarrow> do_title R l s p = ascii_title s p"
  by (induction s arbitrary: l p) (auto simp: py_to_lower_def py_to_title_def py_is_cased_def)

lemma ascii_case_idem:
  "ascii_lower (ascii_lower c) = ascii_lower c"
  "ascii_upper (ascii_upper c) = ascii_upper c"
  "ascii_alpha (ascii_lower c) = ascii_alpha c"
  "ascii_alpha (ascii_upper c) = ascii_alpha c"
  by (auto simp: ascii_lower_def ascii_upper_def ascii_alpha_def)

lemma ascii_title_idem: "ascii_title (ascii_title s p) p = ascii_title s p"
  by (induction s arbitrary: p) (auto simp: ascii_case_idem)

lemma ascii_title_ascii:
  "\<forall>c \<in> set s. c < 128 \<Longrightarrow> \<forall>c \<in> set (ascii_title s p). c < 128"
  by (induction s arbitrary: p) (auto simp: ascii_lower_def ascii_upper_def)

lemma ascii_title_no_underscore:
  "95 \<notin> set s \<Longrightarrow> 95 \<notin> set (ascii_title s p)"
  by (induction s arbitrary: p) (auto simp: ascii_lower_def ascii_upper_def split: if_splits)

lemma ascii_upper_not_lower: "\<not> (97 \<le> ascii_upper c \<and> ascii_upper c \<le> 122)"
  by (auto simp: ascii_upper_def)

lemma apply_replacements_none:
  "\<not> list_ex (\<lambda>(old, new). startswith d old) tbl \<Longrightarrow> apply_replacements tbl d = d"
  by (induction tbl) auto

lemma title_no_prefix:
  "\<not> list_ex (\<lambda>(old, new). startswith (ascii_title d False) old) replacements"
proof (cases d)
  case Nil
  then show ?thesis by (simp add: replacements_def startswith_def)
next
  case (Cons c cs)
  have "ascii_upper c \<noteq> 104" "ascii_upper c \<noteq> 103" "ascii_upper c \<noteq> 113" "ascii_upper c \<noteq> 105"
    using ascii_upper_not_lower [of c] by auto
  with Cons show ?thesis by (simp add: replacements_def startswith_def)
qed

text \<open>
  C9, as stated: for every identifier without a recognized prefix the formatter applied
  to its own output returns that output. \<open>str.title()\<close> decides the case of a
  character by whether the character before it, in the string it is given, is cased.
  The identifier U+0061 U+0130 U+0062 has no recognized prefix. Its display name is
  U+0041 U+0069 U+0307 U+0062: the lower case of U+0130 is the pair U+0069 U+0307, and
  the last letter follows the cased U+0130. In the output the last letter follows the
  combining dot U+0307, which is not cased, so the second application turns it into
  U+0042.
\<close>

theorem format_benchmark_name_not_idempotent:
  "\<not> recognized_prefix [97, 304, 98]
   \<and> format_benchmark_name sample_runtime [97, 304, 98] = [65, 105, 775, 98]
   \<and> format_benchmark_name sample_runtime [65, 105, 775, 98] = [65, 105, 775, 66]"
  by code_simp

text \<open>
  C9, amended: for every identifier of ASCII characters with no recognized prefix,
  \<open>format_benchmark_name\<close> applied to its own output returns that output unchanged.
\<close>

theorem format_benchmark_name_idempotent_ascii:
  assumes ascii: "\<forall>c \<in> set name. c < 128" and no_prefix: "\<not> recognized_prefix name"
  shows "format_benchmark_name R (format_benchmark_name R name) = format_benchmark_name R name"
proof -
  let ?d = "replace_all (str ''_'') (str '' '') name"
  let ?t = "ascii_title ?d False"
  have d_ascii: "\<forall>c \<in> set ?d. c < 128"
    using ascii by (auto simp: replace_all_underscore)
  have d_clean: "95 \<notin> set ?d"
    by (auto simp: replace_all_underscore)
  have "apply_replacements replacements ?d = ?d"
    using no_prefix by (intro apply_replacements_none) (simp add: recognized_prefix_def)
  then have first: "format_benchmark_name R name = ?t"
    using d_ascii by (simp add: format_benchmark_name_def str_title_def do_title_ascii)
  have "replace_all (str ''_'') (str '' '') ?t = ?t"
    using replace_all_no_underscore [OF ascii_title_no_underscore [OF d_clean]] by simp
  moreover have "apply_replacements replacements ?t = ?t"
    by (intro apply_replacements_none title_no_prefix)
  moreover have "str_title R ?t = ?t"
    using ascii_title_ascii [OF d_ascii, of False]
    by (simp add: str_title_def do_title_ascii ascii_title_idem)
  ultimately have "format_benchmark_name R ?t = ?t"
    by (simp add: format_benchmark_name_def)
  with first show ?thesis by simp
qed

theorem format_benchmark_name_idempotent_ascii_witness:
  "\<not> recognized_prefix (str ''query_parse'')
   \<and> format_benchmark_name sample_runtime (str ''query_parse'') = str ''Query Parse''
   \<and> format_benchmark_name sample_runtime
       (format_benchmark_name sample_runtime (str ''query_parse''))
     = format_benchmark_name sample_runtime (str ''query_parse'')"
proof -
  have a: "\<forall>c \<in> set (str ''query_parse''). c < 128" by simp
  have b: "\<not> recognized_prefix (str ''query_parse'')" by code_simp
  have c: "format_benchmark_name sample_runtime (str ''query_parse'') = str ''Query Parse''"
    by code_simp
  from format_benchmark_name_idempotent_ascii [OF a b, of sample_runtime] b c
  show ?thesis by simp
qed

end
